theory Spec2Isabelle
  imports Main "HOL-Library.Log_Nat" "HOL-Library.Sublist"
begin

section \<open>Python values\<close>

subsection \<open>Floats\<close>

text \<open>
  A Python \<^verbatim>\<open>float\<close> is an IEEE 754 binary64 number. A finite float is modelled by the
  rational number it denotes. Comparison of floats is comparison of these rationals. Every
  arithmetic operation computes the exact result and rounds it to the nearest binary64
  value, ties to even (\<open>binary64\<close>): 53 significant bits, gradual underflow below
  \<open>2 ^ - 1022\<close>. Infinities and NaN are not values of the model, so results beyond the
  binary64 range are outside it.
\<close>

type_synonym pyfloat = rat

definition pow2 :: "int \<Rightarrow> rat" where
  "pow2 e = (if 0 \<le> e then 2 ^ nat e else 1 / 2 ^ nat (- e))"

text \<open>\<open>ilog2 q\<close> is the exponent \<open>e\<close> with \<open>2 ^ e \<le> q < 2 ^ (e + 1)\<close>, for \<open>q > 0\<close>.\<close>

definition ilog2 :: "rat \<Rightarrow> int" where
  "ilog2 q = (case quotient_of q of (a, b) \<Rightarrow>
     (let d = bitlen a - bitlen b in if pow2 d \<le> q then d else d - 1))"

definition round_half_even :: "rat \<Rightarrow> int" where
  "round_half_even x =
     (let f = \<lfloor>x\<rfloor>; r = x - of_int f
      in if r < 1 / 2 then f
         else if 1 / 2 < r then f + 1
         else if even f then f else f + 1)"

definition binary64 :: "rat \<Rightarrow> pyfloat" where
  "binary64 q =
     (if q = 0 then 0
      else let u = pow2 (max (ilog2 \<bar>q\<bar>) (- 1022) - 52)
           in sgn q * of_int (round_half_even (\<bar>q\<bar> / u)) * u)"

definition fadd :: "pyfloat \<Rightarrow> pyfloat \<Rightarrow> pyfloat" where
  "fadd x y = binary64 (x + y)"

definition fsub :: "pyfloat \<Rightarrow> pyfloat \<Rightarrow> pyfloat" where
  "fsub x y = binary64 (x - y)"



subsection \<open>Text\<close>

text \<open>The decimal digit \<open>n\<close> as a character: the digits start at code 48.\<close>

definition digit_char :: "nat \<Rightarrow> char" where
  "digit_char n = char_of (48 + n)"

fun str_nat :: "nat \<Rightarrow> string" where
  "str_nat n = (if n < 10 then [digit_char n] else str_nat (n div 10) @ [digit_char (n mod 10)])"

definition str_int :: "int \<Rightarrow> string" where
  "str_int i = (if i < 0 then CHR ''-'' # str_nat (nat (- i)) else str_nat (nat i))"

text \<open>Python's \<^verbatim>\<open>needle in haystack\<close> on strings.\<close>

definition contains :: "string \<Rightarrow> string \<Rightarrow> bool" where
  "contains haystack needle = sublist needle haystack"

subsection \<open>Exceptions\<close>

text \<open>
  One entry of the list that pydantic's \<^verbatim>\<open>ValidationError.errors()\<close> returns: the path of
  the offending field (names of fields and positions in lists), the message and the
  identifier of the violated rule. The entry that \<^verbatim>\<open>get_validation_errors\<close> builds for
  any other exception has a message and an identifier, and no path.
\<close>

datatype loc_item = Key string | Idx nat

record line_error =
  loc :: "loc_item list option"
  msg :: string
  etype :: string

text \<open>
  A pydantic \<^verbatim>\<open>ValidationError\<close> carries the name of the model and at least one entry.
  The built-in exceptions carry their message and have no \<^verbatim>\<open>errors\<close> attribute.
\<close>

datatype exn =
    ValidationError string line_error "line_error list"
  | ValueError string
  | ZeroDivisionError string



section \<open>The primitive constraints of a field\<close>

text \<open>
  \<^verbatim>\<open>Field(..., ge=lo, le=hi)\<close> yields the entries for the field it guards, none when the
  value is accepted. The messages are pydantic's.
\<close>

definition ge_error :: "string \<Rightarrow> int \<Rightarrow> line_error" where
  "ge_error name lo =
     \<lparr>loc = Some [Key name],
      msg = ''Input should be greater than or equal to '' @ str_int lo,
      etype = ''greater_than_equal''\<rparr>"

definition le_error :: "string \<Rightarrow> int \<Rightarrow> line_error" where
  "le_error name hi =
     \<lparr>loc = Some [Key name],
      msg = ''Input should be less than or equal to '' @ str_int hi,
      etype = ''less_than_equal''\<rparr>"

definition number_range :: "string \<Rightarrow> int option \<Rightarrow> int option \<Rightarrow> rat \<Rightarrow> line_error list" where
  "number_range name ge le v =
     (case ge of
        Some lo \<Rightarrow> if v < of_int lo then [ge_error name lo] else []
      | None \<Rightarrow> [])
     @ (case le of
        Some hi \<Rightarrow> if of_int hi < v then [le_error name hi] else []
      | None \<Rightarrow> [])"

definition int_range :: "string \<Rightarrow> int option \<Rightarrow> int option \<Rightarrow> int \<Rightarrow> line_error list" where
  "int_range name ge le v = number_range name ge le (of_int v)"

text \<open>
  \<^verbatim>\<open>Field(..., min_length=m, max_length=n)\<close> on a string. The length of a string is the
  number of its characters.
\<close>

definition plural :: "nat \<Rightarrow> string" where
  "plural n = (if n = 1 then [] else ''s'')"

definition string_too_short :: "string \<Rightarrow> nat \<Rightarrow> line_error" where
  "string_too_short name m =
     \<lparr>loc = Some [Key name],
      msg = ''String should have at least '' @ str_nat m @ '' character'' @ plural m,
      etype = ''string_too_short''\<rparr>"

definition string_too_long :: "string \<Rightarrow> nat \<Rightarrow> line_error" where
  "string_too_long name m =
     \<lparr>loc = Some [Key name],
      msg = ''String should have at most '' @ str_nat m @ '' character'' @ plural m,
      etype = ''string_too_long''\<rparr>"

definition str_length :: "string \<Rightarrow> nat option \<Rightarrow> nat option \<Rightarrow> string \<Rightarrow> line_error list" where
  "str_length name min_length max_length v =
     (case min_length of
        Some m \<Rightarrow> if length v < m then [string_too_short name m] else []
      | None \<Rightarrow> [])
     @ (case max_length of
        Some m \<Rightarrow> if m < length v then [string_too_long name m] else []
      | None \<Rightarrow> [])"

text \<open>\<^verbatim>\<open>Field(..., min_length=m)\<close> on a list.\<close>

definition list_too_short :: "string \<Rightarrow> nat \<Rightarrow> nat \<Rightarrow> line_error" where
  "list_too_short name m actual =
     \<lparr>loc = Some [Key name],
      msg = ''List should have at least '' @ str_nat m @ '' item'' @ plural m
            @ '' after validation, not '' @ str_nat actual,
      etype = ''too_short''\<rparr>"

definition list_min_length :: "string \<Rightarrow> nat \<Rightarrow> 'a list \<Rightarrow> line_error list" where
  "list_min_length name m v = (if length v < m then [list_too_short name m (length v)] else [])"

text \<open>An \<^verbatim>\<open>Optional\<close> field: \<^verbatim>\<open>None\<close> is accepted as it is.\<close>

definition optional :: "('a \<Rightarrow> line_error list) \<Rightarrow> 'a option \<Rightarrow> line_error list" where
  "optional check v = (case v of None \<Rightarrow> [] | Some x \<Rightarrow> check x)"

text \<open>
  A \<^verbatim>\<open>ValueError\<close> raised inside a validator becomes one entry, at the path of what the
  validator guards.
\<close>

definition value_error :: "loc_item list \<Rightarrow> string \<Rightarrow> line_error" where
  "value_error l m = \<lparr>loc = Some l, msg = ''Value error, '' @ m, etype = ''value_error''\<rparr>"

text \<open>
  The input of a class call is a document of the declared shape: every field present, with
  a value of its declared type (an \<^verbatim>\<open>Optional\<close> field may hold \<^verbatim>\<open>None\<close>). What pydantic
  reports for a missing or ill-typed field is not part of the model.

  Constructing a model: the outcome of validating its fields and running its validators is
  either the entries collected (at least one) or the instance. A model validator of mode
  \<^verbatim>\<open>after\<close> runs once every field has been accepted, and what it returns is the instance.
  The class call raises the entries as one \<^verbatim>\<open>ValidationError\<close> named after the class.
\<close>

type_synonym 'a validated = "(line_error \<times> line_error list) + 'a"

definition fields_then :: "line_error list \<Rightarrow> 'a validated \<Rightarrow> 'a validated" where
  "fields_then errs after = (case errs of e # es \<Rightarrow> Inl (e, es) | [] \<Rightarrow> after)"

definition model_validator :: "('a \<Rightarrow> string + 'a) \<Rightarrow> 'a \<Rightarrow> 'a validated" where
  "model_validator f self =
     (case f self of Inl m \<Rightarrow> Inl (value_error [] m, []) | Inr self' \<Rightarrow> Inr self')"

text \<open>
  A field validator (mode \<^verbatim>\<open>after\<close>) runs on a value that passed the constraints of its
  field; what it returns is the value of the field. The result is the entries of the
  field and its value.
\<close>

definition field_validator ::
  "string \<Rightarrow> ('a \<Rightarrow> string + 'a) \<Rightarrow> line_error list \<Rightarrow> 'a \<Rightarrow> line_error list \<times> 'a" where
  "field_validator name f errs v =
     (case errs of
        [] \<Rightarrow> (case f v of Inl m \<Rightarrow> ([value_error [Key name] m], v) | Inr v' \<Rightarrow> ([], v'))
      | e # es \<Rightarrow> (errs, v))"

text \<open>
  A field that holds a model, or a list of models: the entries of the inner model are
  reported under the name of the field (and the position in the list), and the value of
  the field is the instance constructed.
\<close>

definition at_loc :: "loc_item \<Rightarrow> line_error \<Rightarrow> line_error" where
  "at_loc i e = e\<lparr>loc := map_option ((#) i) (loc e)\<rparr>"

definition nested :: "string \<Rightarrow> ('a \<Rightarrow> 'a validated) \<Rightarrow> 'a \<Rightarrow> line_error list \<times> 'a" where
  "nested name validate v =
     (case validate v of
        Inl (e, es) \<Rightarrow> (map (at_loc (Key name)) (e # es), v)
      | Inr v' \<Rightarrow> ([], v'))"

fun nested_items :: "('a \<Rightarrow> 'a validated) \<Rightarrow> nat \<Rightarrow> 'a list \<Rightarrow> line_error list \<times> 'a list" where
  "nested_items validate i [] = ([], [])"
| "nested_items validate i (x # xs) =
     (case nested_items validate (Suc i) xs of
        (errs, vs) \<Rightarrow>
          (case validate x of
             Inl (e, es) \<Rightarrow> (map (at_loc (Idx i)) (e # es) @ errs, x # vs)
           | Inr x' \<Rightarrow> (errs, x' # vs)))"

definition nested_list ::
  "string \<Rightarrow> ('a \<Rightarrow> 'a validated) \<Rightarrow> 'a list \<Rightarrow> line_error list \<times> 'a list" where
  "nested_list name validate vs =
     (case nested_items validate 0 vs of (errs, vs') \<Rightarrow> (map (at_loc (Key name)) errs, vs'))"

definition nested_optional ::
  "string \<Rightarrow> ('a \<Rightarrow> 'a validated) \<Rightarrow> 'a option \<Rightarrow> line_error list \<times> 'a option" where
  "nested_optional name validate v =
     (case v of
        None \<Rightarrow> ([], None)
      | Some x \<Rightarrow> (case nested name validate x of (errs, x') \<Rightarrow> (errs, Some x')))"

fun construct :: "string \<Rightarrow> 'a validated \<Rightarrow> exn + 'a" where
  "construct title (Inl (e, es)) = Inl (ValidationError title e es)"
| "construct title (Inr v) = Inr v"

section \<open>AnalysisWeightings\<close>

record analysis_weightings =
  market_opportunity :: pyfloat
  team :: pyfloat
  traction :: pyfloat
  product :: pyfloat
  competitive_position :: pyfloat

text \<open>The defaults of the five fields.\<close>

definition analysis_weightings_defaults :: analysis_weightings where
  "analysis_weightings_defaults =
     \<lparr>market_opportunity = 25, team = 25, traction = 20, product = 15, competitive_position = 15\<rparr>"

definition weightings_total :: "analysis_weightings \<Rightarrow> pyfloat" where
  "weightings_total self =
     fadd (fadd (fadd (fadd (market_opportunity self) (team self)) (traction self)) (product self))
       (competitive_position self)"

text \<open>
  The model validator. \<open>repr\<close> is Python's conversion of a float to text, used by the
  f-string; the literal \<^verbatim>\<open>0.01\<close> is the float nearest to 1/100.
\<close>

definition validate_weightings_sum ::
  "(pyfloat \<Rightarrow> string) \<Rightarrow> analysis_weightings \<Rightarrow> string + analysis_weightings" where
  "validate_weightings_sum repr self =
     (let total = weightings_total self
      in if \<bar>fsub total 100\<bar> > binary64 (1 / 100)
         then Inl (''Weightings must sum to 100%, got '' @ repr total @ ''%'')
         else Inr self)"

definition AnalysisWeightings_fields :: "analysis_weightings \<Rightarrow> line_error list" where
  "AnalysisWeightings_fields d =
     number_range ''market_opportunity'' (Some 0) (Some 100) (market_opportunity d)
     @ number_range ''team'' (Some 0) (Some 100) (team d)
     @ number_range ''traction'' (Some 0) (Some 100) (traction d)
     @ number_range ''product'' (Some 0) (Some 100) (product d)
     @ number_range ''competitive_position'' (Some 0) (Some 100) (competitive_position d)"

definition AnalysisWeightings_validate ::
  "(pyfloat \<Rightarrow> string) \<Rightarrow> analysis_weightings \<Rightarrow> analysis_weightings validated" where
  "AnalysisWeightings_validate repr d =
     fields_then (AnalysisWeightings_fields d) (model_validator (validate_weightings_sum repr) d)"

definition AnalysisWeightings ::
  "(pyfloat \<Rightarrow> string) \<Rightarrow> analysis_weightings \<Rightarrow> exn + analysis_weightings" where
  "AnalysisWeightings repr d = construct ''AnalysisWeightings'' (AnalysisWeightings_validate repr d)"

text \<open>A stand-in for the float-to-text conversion, for evaluating at concrete inputs.\<close>

definition repr_opaque :: "pyfloat \<Rightarrow> string" where
  "repr_opaque x = ''<float>''"


section \<open>RevenueProjection\<close>

record revenue_projection =
  year1 :: pyfloat
  year3 :: pyfloat
  year5 :: pyfloat

definition validate_revenue_progression :: "revenue_projection \<Rightarrow> string + revenue_projection" where
  "validate_revenue_progression self =
     (if year3 self < year1 self
      then Inl ''year3 projection should not be less than year1''
      else if year5 self < year3 self
      then Inl ''year5 projection should not be less than year3''
      else Inr self)"

definition RevenueProjection_fields :: "revenue_projection \<Rightarrow> line_error list" where
  "RevenueProjection_fields d =
     number_range ''year1'' (Some 0) None (year1 d)
     @ number_range ''year3'' (Some 0) None (year3 d)
     @ number_range ''year5'' (Some 0) None (year5 d)"

definition RevenueProjection_validate :: "revenue_projection \<Rightarrow> revenue_projection validated" where
  "RevenueProjection_validate d =
     fields_then (RevenueProjection_fields d) (model_validator validate_revenue_progression d)"


section \<open>MetricDistribution\<close>






section \<open>Enumerations and the base entity\<close>

datatype FundingStage = PRE_SEED | SEED | SERIES_A | SERIES_B | SERIES_C | LATER_STAGE

datatype RecommendationType = STRONG_BUY | BUY | HOLD | PASS | STRONG_PASS

datatype RiskType =
  INCONSISTENCY | MARKET_SIZE | FINANCIAL_ANOMALY | COMPETITIVE_RISK | TEAM_RISK | TECHNICAL_RISK

datatype RiskSeverity = HIGH | MEDIUM | LOW

text \<open>The three \<^verbatim>\<open>Literal\<close> types of a risk flag.\<close>

datatype impact_level = impact_low | impact_medium | impact_high | impact_critical

datatype likelihood_level = likelihood_low | likelihood_medium | likelihood_high

datatype risk_category =
  financial | market | team_category | product_category | competitive | operational

text \<open>
  A \<^verbatim>\<open>UUID\<close> is its 128-bit number, a \<^verbatim>\<open>datetime\<close> the count of microseconds from the
  epoch, an \<^verbatim>\<open>HttpUrl\<close> the text of an accepted URL. The field \<^verbatim>\<open>id\<close> is \<open>id'\<close> here.
\<close>

type_synonym uuid = nat
type_synonym datetime = int
type_synonym http_url = string

record base_entity =
  id' :: uuid
  created_at :: datetime
  updated_at :: datetime

section \<open>TeamMember, SocialLinks, CompanyProfile\<close>

record team_member =
  name :: string
  role :: string
  background :: "string option"
  linkedin_url :: "http_url option"
  years_experience :: "int option"
  education :: "string option"
  previous_companies :: "string list option"
  expertise :: "string list option"
  is_founder :: "bool option"

definition TeamMember_fields :: "team_member \<Rightarrow> line_error list" where
  "TeamMember_fields d =
     str_length ''name'' (Some 1) (Some 100) (team_member.name d)
     @ str_length ''role'' (Some 1) (Some 100) (role d)
     @ optional (int_range ''years_experience'' (Some 0) (Some 50)) (years_experience d)"

definition TeamMember_validate :: "team_member \<Rightarrow> team_member validated" where
  "TeamMember_validate d = fields_then (TeamMember_fields d) (Inr d)"

definition TeamMember :: "team_member \<Rightarrow> exn + team_member" where
  "TeamMember d = construct ''TeamMember'' (TeamMember_validate d)"

record social_links =
  linkedin :: "http_url option"
  twitter :: "http_url option"
  crunchbase :: "http_url option"

definition SocialLinks_validate :: "social_links \<Rightarrow> social_links validated" where
  "SocialLinks_validate d = fields_then [] (Inr d)"

definition SocialLinks :: "social_links \<Rightarrow> exn + social_links" where
  "SocialLinks d = construct ''SocialLinks'' (SocialLinks_validate d)"

record company_profile = base_entity +
  name :: string
  one_liner :: string
  sector :: string
  stage :: FundingStage
  founded_year :: int
  location :: string
  website :: "http_url option"
  description :: "string option"
  logo_url :: "http_url option"
  social_links :: "social_links option"

text \<open>
  The bound \<^verbatim>\<open>le=datetime.now().year\<close> of \<^verbatim>\<open>founded_year\<close> is an argument of \<^verbatim>\<open>Field\<close>
  in the class body: it is evaluated once, when the class statement runs as the module is
  imported. \<open>import_year\<close> is the calendar year the clock showed then. Constructing a
  profile does not read the clock.
\<close>

definition CompanyProfile_validate :: "int \<Rightarrow> company_profile \<Rightarrow> company_profile validated" where
  "CompanyProfile_validate import_year d =
     (case nested_optional ''social_links'' SocialLinks_validate (social_links d) of
        (social_links_errs, social_links_v) \<Rightarrow>
          fields_then
            (str_length ''name'' (Some 1) (Some 200) (company_profile.name d)
             @ str_length ''one_liner'' (Some 10) (Some 500) (one_liner d)
             @ str_length ''sector'' (Some 1) (Some 100) (sector d)
             @ int_range ''founded_year'' (Some 1900) (Some import_year) (founded_year d)
             @ str_length ''location'' (Some 1) (Some 200) (location d)
             @ optional (str_length ''description'' None (Some 2000)) (description d)
             @ social_links_errs)
            (Inr (d\<lparr>social_links := social_links_v\<rparr>)))"

definition CompanyProfile :: "int \<Rightarrow> company_profile \<Rightarrow> exn + company_profile" where
  "CompanyProfile import_year d = construct ''CompanyProfile'' (CompanyProfile_validate import_year d)"

section \<open>The investment metrics\<close>

record revenue_metrics =
  arr :: "pyfloat option"
  mrr :: "pyfloat option"
  growth_rate :: "pyfloat option"
  projected_arr :: "pyfloat list option"
  revenue_run_rate :: "pyfloat option"
  gross_margin :: "pyfloat option"
  net_revenue_retention :: "pyfloat option"

text \<open>The loop of \<^verbatim>\<open>validate_projected_arr\<close>: it raises at the first negative value.\<close>

fun any_negative :: "pyfloat list \<Rightarrow> bool" where
  "any_negative [] = False"
| "any_negative (x # xs) = (if x < 0 then True else any_negative xs)"

definition validate_projected_arr :: "pyfloat list option \<Rightarrow> string + pyfloat list option" where
  "validate_projected_arr v =
     (case v of
        None \<Rightarrow> Inr v
      | Some xs \<Rightarrow>
          if any_negative xs then Inl ''All projected ARR values must be non-negative''
          else Inr v)"

definition RevenueMetrics_validate :: "revenue_metrics \<Rightarrow> revenue_metrics validated" where
  "RevenueMetrics_validate d =
     (case field_validator ''projected_arr'' validate_projected_arr [] (projected_arr d) of
        (projected_arr_errs, projected_arr_v) \<Rightarrow>
          fields_then
            (optional (number_range ''arr'' (Some 0) None) (arr d)
             @ optional (number_range ''mrr'' (Some 0) None) (mrr d)
             @ optional (number_range ''growth_rate'' (Some (- 100)) (Some 10000)) (growth_rate d)
             @ projected_arr_errs
             @ optional (number_range ''revenue_run_rate'' (Some 0) None) (revenue_run_rate d)
             @ optional (number_range ''gross_margin'' (Some 0) (Some 100)) (gross_margin d)
             @ optional (number_range ''net_revenue_retention'' (Some 0) (Some 500))
                 (net_revenue_retention d))
            (Inr (d\<lparr>projected_arr := projected_arr_v\<rparr>)))"

definition RevenueMetrics :: "revenue_metrics \<Rightarrow> exn + revenue_metrics" where
  "RevenueMetrics d = construct ''RevenueMetrics'' (RevenueMetrics_validate d)"

record traction_metrics =
  customers :: "int option"
  customer_growth_rate :: "pyfloat option"
  churn_rate :: "pyfloat option"
  nps :: "pyfloat option"
  active_users :: "int option"
  conversion_rate :: "pyfloat option"
  ltv :: "pyfloat option"
  cac :: "pyfloat option"
  ltv_cac_ratio :: "pyfloat option"

definition TractionMetrics_fields :: "traction_metrics \<Rightarrow> line_error list" where
  "TractionMetrics_fields d =
     optional (int_range ''customers'' (Some 0) None) (customers d)
     @ optional (number_range ''customer_growth_rate'' (Some (- 100)) (Some 10000))
         (customer_growth_rate d)
     @ optional (number_range ''churn_rate'' (Some 0) (Some 100)) (churn_rate d)
     @ optional (number_range ''nps'' (Some (- 100)) (Some 100)) (nps d)
     @ optional (int_range ''active_users'' (Some 0) None) (active_users d)
     @ optional (number_range ''conversion_rate'' (Some 0) (Some 100)) (conversion_rate d)
     @ optional (number_range ''ltv'' (Some 0) None) (ltv d)
     @ optional (number_range ''cac'' (Some 0) None) (cac d)
     @ optional (number_range ''ltv_cac_ratio'' (Some 0) None) (ltv_cac_ratio d)"

definition TractionMetrics_validate :: "traction_metrics \<Rightarrow> traction_metrics validated" where
  "TractionMetrics_validate d = fields_then (TractionMetrics_fields d) (Inr d)"

definition TractionMetrics :: "traction_metrics \<Rightarrow> exn + traction_metrics" where
  "TractionMetrics d = construct ''TractionMetrics'' (TractionMetrics_validate d)"

text \<open>The field \<^verbatim>\<open>size\<close> is \<open>size'\<close> here.\<close>

record team_metrics =
  size' :: int
  founders_count :: int
  key_hires :: "team_member list"
  engineering_team_size :: "int option"
  sales_team_size :: "int option"
  burn_rate :: "pyfloat option"
  runway :: "pyfloat option"

definition TeamMetrics_validate :: "team_metrics \<Rightarrow> team_metrics validated" where
  "TeamMetrics_validate d =
     (case nested_list ''key_hires'' TeamMember_validate (key_hires d) of
        (key_hires_errs, key_hires_v) \<Rightarrow>
          fields_then
            (int_range ''size'' (Some 1) (Some 10000) (size' d)
             @ int_range ''founders_count'' (Some 1) (Some 20) (founders_count d)
             @ key_hires_errs
             @ optional (int_range ''engineering_team_size'' (Some 0) None)
                 (engineering_team_size d)
             @ optional (int_range ''sales_team_size'' (Some 0) None) (sales_team_size d)
             @ optional (number_range ''burn_rate'' (Some 0) None) (burn_rate d)
             @ optional (number_range ''runway'' (Some 0) None) (runway d))
            (Inr (d\<lparr>key_hires := key_hires_v\<rparr>)))"

definition TeamMetrics :: "team_metrics \<Rightarrow> exn + team_metrics" where
  "TeamMetrics d = construct ''TeamMetrics'' (TeamMetrics_validate d)"

record funding_metrics =
  total_raised :: "pyfloat option"
  last_round_size :: "pyfloat option"
  last_round_date :: "datetime option"
  current_ask :: "pyfloat option"
  valuation :: "pyfloat option"
  pre_money_valuation :: "pyfloat option"
  post_money_valuation :: "pyfloat option"
  stage :: "FundingStage option"
  lead_investor :: "string option"
  use_of_funds :: "string list option"

definition FundingMetrics_fields :: "funding_metrics \<Rightarrow> line_error list" where
  "FundingMetrics_fields d =
     optional (number_range ''total_raised'' (Some 0) None) (total_raised d)
     @ optional (number_range ''last_round_size'' (Some 0) None) (last_round_size d)
     @ optional (number_range ''current_ask'' (Some 0) None) (current_ask d)
     @ optional (number_range ''valuation'' (Some 0) None) (valuation d)
     @ optional (number_range ''pre_money_valuation'' (Some 0) None) (pre_money_valuation d)
     @ optional (number_range ''post_money_valuation'' (Some 0) None) (post_money_valuation d)"

definition FundingMetrics_validate :: "funding_metrics \<Rightarrow> funding_metrics validated" where
  "FundingMetrics_validate d = fields_then (FundingMetrics_fields d) (Inr d)"

definition FundingMetrics :: "funding_metrics \<Rightarrow> exn + funding_metrics" where
  "FundingMetrics d = construct ''FundingMetrics'' (FundingMetrics_validate d)"

record investment_metrics = base_entity +
  revenue :: revenue_metrics
  traction :: traction_metrics
  team :: team_metrics
  funding :: funding_metrics
  extraction_timestamp :: datetime
  source_documents :: "string list"
  confidence :: pyfloat



section \<open>The deal memo\<close>

text \<open>The field \<^verbatim>\<open>type\<close> is \<open>type'\<close> here.\<close>

record risk_flag = base_entity +
  type' :: RiskType
  severity :: RiskSeverity
  title :: string
  description :: string
  affected_metrics :: "string list"
  suggested_mitigation :: string
  source_documents :: "string list"
  confidence :: pyfloat
  impact :: impact_level
  likelihood :: likelihood_level
  category :: risk_category
  detected_at :: datetime
  evidence :: "string list"
  related_flags :: "string list option"

definition RiskFlag_fields :: "risk_flag \<Rightarrow> line_error list" where
  "RiskFlag_fields d =
     str_length ''title'' (Some 1) (Some 200) (title d)
     @ str_length ''description'' (Some 10) (Some 1000) (risk_flag.description d)
     @ str_length ''suggested_mitigation'' (Some 10) (Some 1000) (suggested_mitigation d)
     @ number_range ''confidence'' (Some 0) (Some 1) (risk_flag.confidence d)"

definition RiskFlag_validate :: "risk_flag \<Rightarrow> risk_flag validated" where
  "RiskFlag_validate d = fields_then (RiskFlag_fields d) (Inr d)"

definition RiskFlag :: "risk_flag \<Rightarrow> exn + risk_flag" where
  "RiskFlag d = construct ''RiskFlag'' (RiskFlag_validate d)"

text \<open>The fields \<^verbatim>\<open>interpretation\<close> and \<^verbatim>\<open>context\<close> are \<open>interpretation'\<close> and
  \<open>context'\<close> here.\<close>

record benchmark_comparison =
  metric :: string
  company_value :: pyfloat
  sector_median :: pyfloat
  percentile :: pyfloat
  interpretation' :: string
  context' :: string
  recommendation :: "string option"

definition BenchmarkComparison_fields :: "benchmark_comparison \<Rightarrow> line_error list" where
  "BenchmarkComparison_fields d =
     str_length ''metric'' (Some 1) (Some 100) (metric d)
     @ number_range ''percentile'' (Some 0) (Some 100) (percentile d)
     @ str_length ''interpretation'' (Some 10) (Some 500) (interpretation' d)
     @ str_length ''context'' (Some 10) (Some 500) (context' d)
     @ optional (str_length ''recommendation'' None (Some 500))
         (benchmark_comparison.recommendation d)"

definition BenchmarkComparison_validate ::
  "benchmark_comparison \<Rightarrow> benchmark_comparison validated" where
  "BenchmarkComparison_validate d = fields_then (BenchmarkComparison_fields d) (Inr d)"

definition BenchmarkComparison :: "benchmark_comparison \<Rightarrow> exn + benchmark_comparison" where
  "BenchmarkComparison d = construct ''BenchmarkComparison'' (BenchmarkComparison_validate d)"

record deal_memo_summary =
  company_name :: string
  one_liner :: string
  sector :: string
  stage :: FundingStage
  signal_score :: pyfloat
  recommendation :: RecommendationType
  confidence_level :: pyfloat
  last_updated :: datetime

definition DealMemoSummary_fields :: "deal_memo_summary \<Rightarrow> line_error list" where
  "DealMemoSummary_fields d =
     str_length ''company_name'' (Some 1) (Some 200) (company_name d)
     @ str_length ''one_liner'' (Some 10) (Some 500) (deal_memo_summary.one_liner d)
     @ str_length ''sector'' (Some 1) (Some 100) (deal_memo_summary.sector d)
     @ number_range ''signal_score'' (Some 0) (Some 100) (signal_score d)
     @ number_range ''confidence_level'' (Some 0) (Some 1) (confidence_level d)"

definition DealMemoSummary_validate :: "deal_memo_summary \<Rightarrow> deal_memo_summary validated" where
  "DealMemoSummary_validate d = fields_then (DealMemoSummary_fields d) (Inr d)"

definition DealMemoSummary :: "deal_memo_summary \<Rightarrow> exn + deal_memo_summary" where
  "DealMemoSummary d = construct ''DealMemoSummary'' (DealMemoSummary_validate d)"

text \<open>
  The loop shared by the validators of the lists of strings: it raises at the first item
  whose length is below \<open>lo\<close> or above \<open>hi\<close>.
\<close>

fun any_length_outside :: "nat \<Rightarrow> nat \<Rightarrow> string list \<Rightarrow> bool" where
  "any_length_outside lo hi [] = False"
| "any_length_outside lo hi (x # xs) =
     (if length x < lo \<or> hi < length x then True else any_length_outside lo hi xs)"

record growth_potential =
  upside_summary :: string
  growth_timeline :: string
  key_drivers :: "string list"
  scalability_factors :: "string list"
  market_expansion_opportunity :: string
  revenue_projection :: revenue_projection

definition validate_key_drivers :: "string list \<Rightarrow> string + string list" where
  "validate_key_drivers v =
     (if any_length_outside 5 200 v
      then Inl ''Each key driver must be between 5 and 200 characters''
      else Inr v)"

definition validate_scalability_factors :: "string list \<Rightarrow> string + string list" where
  "validate_scalability_factors v =
     (if any_length_outside 5 200 v
      then Inl ''Each scalability factor must be between 5 and 200 characters''
      else Inr v)"

definition GrowthPotential_validate :: "growth_potential \<Rightarrow> growth_potential validated" where
  "GrowthPotential_validate d =
     (case field_validator ''key_drivers'' validate_key_drivers
             (list_min_length ''key_drivers'' 1 (key_drivers d)) (key_drivers d) of
        (key_drivers_errs, key_drivers_v) \<Rightarrow>
     (case field_validator ''scalability_factors'' validate_scalability_factors
             (list_min_length ''scalability_factors'' 1 (scalability_factors d))
             (scalability_factors d) of
        (scalability_factors_errs, scalability_factors_v) \<Rightarrow>
     (case nested ''revenue_projection'' RevenueProjection_validate (revenue_projection d) of
        (revenue_projection_errs, revenue_projection_v) \<Rightarrow>
          fields_then
            (str_length ''upside_summary'' (Some 50) (Some 2000) (upside_summary d)
             @ str_length ''growth_timeline'' (Some 20) (Some 1000) (growth_timeline d)
             @ key_drivers_errs
             @ scalability_factors_errs
             @ str_length ''market_expansion_opportunity'' (Some 20) (Some 1000)
                 (market_expansion_opportunity d)
             @ revenue_projection_errs)
            (Inr (d\<lparr>key_drivers := key_drivers_v,
                    scalability_factors := scalability_factors_v,
                    revenue_projection := revenue_projection_v\<rparr>)))))"

definition GrowthPotential :: "growth_potential \<Rightarrow> exn + growth_potential" where
  "GrowthPotential d = construct ''GrowthPotential'' (GrowthPotential_validate d)"

record risk_assessment =
  overall_risk_score :: pyfloat
  high_priority_risks :: "risk_flag list"
  medium_priority_risks :: "risk_flag list"
  low_priority_risks :: "risk_flag list"
  risk_mitigation_plan :: "string list"

definition validate_mitigation_plan :: "string list \<Rightarrow> string + string list" where
  "validate_mitigation_plan v =
     (if any_length_outside 10 500 v
      then Inl ''Each mitigation plan item must be between 10 and 500 characters''
      else Inr v)"

definition RiskAssessment_validate :: "risk_assessment \<Rightarrow> risk_assessment validated" where
  "RiskAssessment_validate d =
     (case nested_list ''high_priority_risks'' RiskFlag_validate (high_priority_risks d) of
        (high_errs, high_v) \<Rightarrow>
     (case nested_list ''medium_priority_risks'' RiskFlag_validate (medium_priority_risks d) of
        (medium_errs, medium_v) \<Rightarrow>
     (case nested_list ''low_priority_risks'' RiskFlag_validate (low_priority_risks d) of
        (low_errs, low_v) \<Rightarrow>
     (case field_validator ''risk_mitigation_plan'' validate_mitigation_plan
             (list_min_length ''risk_mitigation_plan'' 1 (risk_mitigation_plan d))
             (risk_mitigation_plan d) of
        (plan_errs, plan_v) \<Rightarrow>
          fields_then
            (number_range ''overall_risk_score'' (Some 0) (Some 100) (overall_risk_score d)
             @ high_errs @ medium_errs @ low_errs @ plan_errs)
            (Inr (d\<lparr>high_priority_risks := high_v, medium_priority_risks := medium_v,
                    low_priority_risks := low_v, risk_mitigation_plan := plan_v\<rparr>))))))"

definition RiskAssessment :: "risk_assessment \<Rightarrow> exn + risk_assessment" where
  "RiskAssessment d = construct ''RiskAssessment'' (RiskAssessment_validate d)"

record investment_recommendation =
  narrative :: string
  investment_thesis :: string
  ideal_check_size :: string
  ideal_valuation_cap :: string
  suggested_terms :: "string list"
  key_diligence_questions :: "string list"
  follow_up_actions :: "string list"
  timeline_to_decision :: string

definition validate_suggested_terms :: "string list \<Rightarrow> string + string list" where
  "validate_suggested_terms v =
     (if any_length_outside 5 200 v
      then Inl ''Each suggested term must be between 5 and 200 characters''
      else Inr v)"

definition validate_diligence_questions :: "string list \<Rightarrow> string + string list" where
  "validate_diligence_questions v =
     (if any_length_outside 10 300 v
      then Inl ''Each diligence question must be between 10 and 300 characters''
      else Inr v)"

definition validate_follow_up_actions :: "string list \<Rightarrow> string + string list" where
  "validate_follow_up_actions v =
     (if any_length_outside 5 200 v
      then Inl ''Each follow-up action must be between 5 and 200 characters''
      else Inr v)"

definition InvestmentRecommendation_validate ::
  "investment_recommendation \<Rightarrow> investment_recommendation validated" where
  "InvestmentRecommendation_validate d =
     (case field_validator ''suggested_terms'' validate_suggested_terms
             (list_min_length ''suggested_terms'' 1 (suggested_terms d)) (suggested_terms d) of
        (terms_errs, terms_v) \<Rightarrow>
     (case field_validator ''key_diligence_questions'' validate_diligence_questions
             (list_min_length ''key_diligence_questions'' 1 (key_diligence_questions d))
             (key_diligence_questions d) of
        (questions_errs, questions_v) \<Rightarrow>
     (case field_validator ''follow_up_actions'' validate_follow_up_actions
             (list_min_length ''follow_up_actions'' 1 (follow_up_actions d))
             (follow_up_actions d) of
        (actions_errs, actions_v) \<Rightarrow>
          fields_then
            (str_length ''narrative'' (Some 100) (Some 3000) (narrative d)
             @ str_length ''investment_thesis'' (Some 50) (Some 2000) (investment_thesis d)
             @ str_length ''ideal_check_size'' (Some 5) (Some 100) (ideal_check_size d)
             @ str_length ''ideal_valuation_cap'' (Some 5) (Some 100) (ideal_valuation_cap d)
             @ terms_errs @ questions_errs @ actions_errs
             @ str_length ''timeline_to_decision'' (Some 5) (Some 100) (timeline_to_decision d))
            (Inr (d\<lparr>suggested_terms := terms_v, key_diligence_questions := questions_v,
                    follow_up_actions := actions_v\<rparr>)))))"

definition InvestmentRecommendation ::
  "investment_recommendation \<Rightarrow> exn + investment_recommendation" where
  "InvestmentRecommendation d =
     construct ''InvestmentRecommendation'' (InvestmentRecommendation_validate d)"

record deal_memo_metadata =
  generated_by :: string
  analysis_version :: string
  source_documents :: "string list"
  processing_time :: pyfloat
  data_quality :: pyfloat

definition DealMemoMetadata_fields :: "deal_memo_metadata \<Rightarrow> line_error list" where
  "DealMemoMetadata_fields d =
     str_length ''generated_by'' (Some 1) (Some 100) (generated_by d)
     @ str_length ''analysis_version'' (Some 1) (Some 20) (analysis_version d)
     @ number_range ''processing_time'' (Some 0) None (processing_time d)
     @ number_range ''data_quality'' (Some 0) (Some 1) (data_quality d)"

definition DealMemoMetadata_validate :: "deal_memo_metadata \<Rightarrow> deal_memo_metadata validated" where
  "DealMemoMetadata_validate d = fields_then (DealMemoMetadata_fields d) (Inr d)"

definition DealMemoMetadata :: "deal_memo_metadata \<Rightarrow> exn + deal_memo_metadata" where
  "DealMemoMetadata d = construct ''DealMemoMetadata'' (DealMemoMetadata_validate d)"

record aegis_deal_memo =
  summary :: deal_memo_summary
  key_benchmarks :: "benchmark_comparison list"
  growth_potential :: growth_potential
  risk_assessment :: risk_assessment
  investment_recommendation :: investment_recommendation
  analysis_weightings :: analysis_weightings
  metadata :: deal_memo_metadata

definition AegisDealMemo_validate ::
  "(pyfloat \<Rightarrow> string) \<Rightarrow> aegis_deal_memo \<Rightarrow> aegis_deal_memo validated" where
  "AegisDealMemo_validate repr d =
     (case nested ''summary'' DealMemoSummary_validate (summary d) of
        (summary_errs, summary_v) \<Rightarrow>
     (case nested_list ''key_benchmarks'' BenchmarkComparison_validate (key_benchmarks d) of
        (benchmarks_errs, benchmarks_v) \<Rightarrow>
     (case nested ''growth_potential'' GrowthPotential_validate (growth_potential d) of
        (growth_errs, growth_v) \<Rightarrow>
     (case nested ''risk_assessment'' RiskAssessment_validate (risk_assessment d) of
        (risk_errs, risk_v) \<Rightarrow>
     (case nested ''investment_recommendation'' InvestmentRecommendation_validate
             (investment_recommendation d) of
        (recommendation_errs, recommendation_v) \<Rightarrow>
     (case nested ''analysis_weightings'' (AnalysisWeightings_validate repr)
             (analysis_weightings d) of
        (weightings_errs, weightings_v) \<Rightarrow>
     (case nested ''metadata'' DealMemoMetadata_validate (metadata d) of
        (metadata_errs, metadata_v) \<Rightarrow>
          fields_then
            (summary_errs @ benchmarks_errs @ growth_errs @ risk_errs @ recommendation_errs
             @ weightings_errs @ metadata_errs)
            (Inr (d\<lparr>summary := summary_v, key_benchmarks := benchmarks_v,
                    growth_potential := growth_v, risk_assessment := risk_v,
                    investment_recommendation := recommendation_v,
                    analysis_weightings := weightings_v,
                    metadata := metadata_v\<rparr>)))))))))"

definition AegisDealMemo :: "(pyfloat \<Rightarrow> string) \<Rightarrow> aegis_deal_memo \<Rightarrow> exn + aegis_deal_memo" where
  "AegisDealMemo repr d = construct ''AegisDealMemo'' (AegisDealMemo_validate repr d)"

record deal_memo = base_entity +
  aegis_deal_memo :: aegis_deal_memo



section \<open>The utility functions\<close>








section \<open>Documents of the test suite\<close>

text \<open>
  The valid documents that the repository's tests build, with fixed identifiers and
  timestamps in place of the random and current ones.
\<close>

definition example_company_profile :: company_profile where
  "example_company_profile =
     \<lparr>id' = 1, created_at = 1700000000000000, updated_at = 1700000000000000,
      company_profile.name = ''TechStartup Inc'',
      company_profile.one_liner = ''Revolutionary AI platform for enterprise automation'',
      company_profile.sector = ''Enterprise Software'',
      company_profile.stage = SERIES_A,
      founded_year = 2020,
      location = ''San Francisco, CA'',
      website = Some ''https://techstartup.com/'',
      company_profile.description =
        Some ''A comprehensive AI platform that helps enterprises automate their workflows.'',
      logo_url = None,
      social_links = None\<rparr>"







section \<open>Properties of the float model\<close>

text \<open>
  The rounding at values whose floats are known: 0.1, 0.01, 0.1 + 0.2 (printed
  0.30000000000000004) and 100.
\<close>

lemma binary64_known_values:
  "binary64 (1 / 10) = 3602879701896397 / 36028797018963968"
  "binary64 (1 / 100) = 5764607523034235 / 576460752303423488"
  "fadd (binary64 (1 / 10)) (binary64 (2 / 10)) = 1351079888211149 / 4503599627370496"
  "binary64 100 = 100"
  by code_simp+


lemma round_half_even_error: "\<bar>of_int (round_half_even x) - x\<bar> \<le> 1 / 2"
proof -
  have "of_int \<lfloor>x\<rfloor> \<le> x" and "x < of_int \<lfloor>x\<rfloor> + 1"
    by linarith+
  then show ?thesis
    unfolding round_half_even_def Let_def by (auto simp: abs_le_iff)
qed

lemma pow2_power_int: "pow2 e = power_int 2 e"
proof (cases "0 \<le> e")
  case True
  then show ?thesis by (simp add: pow2_def power_int_def)
next
  case False
  have "inverse (2::rat) ^ nat (- e) = 1 / 2 ^ nat (- e)"
    by (simp add: power_one_over)
  with False show ?thesis by (simp only: pow2_def power_int_def if_False)
qed

lemma pow2_pos: "0 < pow2 e"
  by (simp add: pow2_def)

text \<open>
  The exponent found brackets the value, and the result of rounding is within half a unit
  in the last place of the exact value.
\<close>

lemma ilog2_bounds:
  assumes "0 < q"
  shows "pow2 (ilog2 q) \<le> q \<and> q < pow2 (ilog2 q + 1)"
proof -
  obtain a b where ab: "quotient_of q = (a, b)"
    by (cases "quotient_of q")
  have b: "0 < b" using ab by (rule quotient_of_denom_pos)
  have q: "q = of_int a / of_int b" using ab by (rule quotient_of_div)
  have a: "0 < a" using assms b unfolding q by (simp add: zero_less_divide_iff)
  define d where "d = bitlen a - bitlen b"
  have la: "1 \<le> bitlen a" using a by (simp add: bitlen_alt_def)
  have lb: "1 \<le> bitlen b" using b by (simp add: bitlen_alt_def)
  have a_lo: "power_int 2 (bitlen a - 1) \<le> (of_int a :: rat)"
  proof -
    have "(2::int) ^ nat (bitlen a - 1) \<le> a" using bitlen_bounds [OF a] by simp
    then have "(of_int ((2::int) ^ nat (bitlen a - 1)) :: rat) \<le> of_int a"
      by (simp only: of_int_le_iff)
    then show ?thesis using la by (simp add: power_int_def)
  qed
  have a_hi: "(of_int a :: rat) < power_int 2 (bitlen a)"
  proof -
    have "a < (2::int) ^ nat (bitlen a)" using bitlen_bounds [OF a] by simp
    then have "(of_int a :: rat) < of_int ((2::int) ^ nat (bitlen a))"
      by (simp only: of_int_less_iff)
    then show ?thesis using la by (simp add: power_int_def)
  qed
  have b_lo: "power_int 2 (bitlen b - 1) \<le> (of_int b :: rat)"
  proof -
    have "(2::int) ^ nat (bitlen b - 1) \<le> b" using bitlen_bounds [OF b] by simp
    then have "(of_int ((2::int) ^ nat (bitlen b - 1)) :: rat) \<le> of_int b"
      by (simp only: of_int_le_iff)
    then show ?thesis using lb by (simp add: power_int_def)
  qed
  have b_hi: "(of_int b :: rat) < power_int 2 (bitlen b)"
  proof -
    have "b < (2::int) ^ nat (bitlen b)" using bitlen_bounds [OF b] by simp
    then have "(of_int b :: rat) < of_int ((2::int) ^ nat (bitlen b))"
      by (simp only: of_int_less_iff)
    then show ?thesis using lb by (simp add: power_int_def)
  qed
  have bp: "(0::rat) < of_int b" using b by simp
  have lower: "pow2 (d - 1) \<le> q"
  proof -
    have "power_int 2 (bitlen a - 1) / power_int 2 (bitlen b) \<le> (of_int a :: rat) / of_int b"
      using a_lo b_hi bp a by (intro frac_le) (simp_all add: less_imp_le)
    moreover have "power_int (2::rat) (bitlen a - 1) / power_int 2 (bitlen b) = power_int 2 (d - 1)"
    proof -
      have e: "d - 1 = (bitlen a - 1) - bitlen b" by (simp add: d_def)
      show ?thesis unfolding e by (rule power_int_diff [symmetric]) simp
    qed
    ultimately show ?thesis unfolding q pow2_power_int by simp
  qed
  have upper: "q < pow2 (d + 1)"
  proof -
    have p: "(0::rat) < power_int 2 (bitlen b - 1)" by simp
    have "(of_int a :: rat) / of_int b < power_int 2 (bitlen a) / power_int 2 (bitlen b - 1)"
      using a_hi b_lo bp p a by (intro frac_less) simp_all
    moreover have "power_int (2::rat) (bitlen a) / power_int 2 (bitlen b - 1) = power_int 2 (d + 1)"
    proof -
      have e: "d + 1 = bitlen a - (bitlen b - 1)" by (simp add: d_def)
      show ?thesis unfolding e by (rule power_int_diff [symmetric]) simp
    qed
    ultimately show ?thesis unfolding q pow2_power_int by simp
  qed
  have i: "ilog2 q = (if pow2 d \<le> q then d else d - 1)"
    by (simp add: ilog2_def ab d_def Let_def)
  show ?thesis
  proof (cases "pow2 d \<le> q")
    case True
    then show ?thesis using upper i by simp
  next
    case False
    then show ?thesis using lower i by simp
  qed
qed

lemma binary64_error:
  "\<bar>binary64 q - q\<bar> \<le> pow2 (max (ilog2 \<bar>q\<bar>) (- 1022) - 52) / 2"
proof (cases "q = 0")
  case True
  then show ?thesis using pow2_pos [of "max (ilog2 \<bar>q\<bar>) (- 1022) - 52"] by (simp add: binary64_def)
next
  case False
  define u where "u = pow2 (max (ilog2 \<bar>q\<bar>) (- 1022) - 52)"
  have u: "0 < u" unfolding u_def by (rule pow2_pos)
  define n where "n = round_half_even (\<bar>q\<bar> / u)"
  have b: "binary64 q = sgn q * of_int n * u"
    using False by (simp add: binary64_def Let_def u_def n_def)
  have "\<bar>of_int n - \<bar>q\<bar> / u\<bar> \<le> 1 / 2"
    unfolding n_def by (rule round_half_even_error)
  then have "\<bar>of_int n - \<bar>q\<bar> / u\<bar> * u \<le> 1 / 2 * u"
    using u by (intro mult_right_mono) simp_all
  moreover have "\<bar>of_int n - \<bar>q\<bar> / u\<bar> * u = \<bar>of_int n * u - \<bar>q\<bar>\<bar>"
  proof -
    have "\<bar>of_int n - \<bar>q\<bar> / u\<bar> * u = \<bar>(of_int n - \<bar>q\<bar> / u) * u\<bar>"
      using u by (simp add: abs_mult)
    also have "(of_int n - \<bar>q\<bar> / u) * u = of_int n * u - \<bar>q\<bar>"
      using u by (simp add: left_diff_distrib)
    finally show ?thesis .
  qed
  moreover have "\<bar>binary64 q - q\<bar> = \<bar>of_int n * u - \<bar>q\<bar>\<bar>"
  proof -
    have "q = sgn q * \<bar>q\<bar>" by (simp add: sgn_mult_abs)
    then have "binary64 q - q = sgn q * (of_int n * u - \<bar>q\<bar>)"
      unfolding b by (simp add: right_diff_distrib mult.assoc)
    then have "\<bar>binary64 q - q\<bar> = \<bar>sgn q\<bar> * \<bar>of_int n * u - \<bar>q\<bar>\<bar>"
      by (simp only: abs_mult)
    then show ?thesis using False by (simp add: abs_sgn_eq)
  qed
  ultimately show ?thesis unfolding u_def by simp
qed

section \<open>Properties of the primitive constraints\<close>

lemma number_range_empty_iff:
  "number_range nm (Some lo) (Some hi) v = [] \<longleftrightarrow> of_int lo \<le> v \<and> v \<le> of_int hi"
  by (auto simp: number_range_def)


lemma number_range_etype:
  "e \<in> set (number_range nm ge le v) \<Longrightarrow>
     etype e = ''greater_than_equal'' \<or> etype e = ''less_than_equal''"
  by (auto simp: number_range_def ge_error_def le_error_def split: option.splits if_splits)


lemma int_range_empty_iff: "int_range nm (Some lo) (Some hi) v = [] \<longleftrightarrow> lo \<le> v \<and> v \<le> hi"
  by (simp add: int_range_def number_range_empty_iff)

lemma str_length_empty_iff:
  "str_length nm (Some lo) (Some hi) v = [] \<longleftrightarrow> lo \<le> length v \<and> length v \<le> hi"
  by (auto simp: str_length_def)

lemma construct_Inr_iff: "construct ttl r = Inr v \<longleftrightarrow> r = Inr v"
  by (cases r) auto

lemma construct_Inl_iff:
  "construct ttl r = Inl x \<longleftrightarrow> (\<exists>e es. r = Inl (e, es) \<and> x = ValidationError ttl e es)"
  by (cases r) auto


lemma validated_fields_Inl:
  "errs = e # es \<Longrightarrow>
   construct ttl (fields_then errs after) = Inl (ValidationError ttl e es)"
  by (simp add: fields_then_def)




text \<open>
  A value that comes back from a validator which returns its argument, or from a nested
  construction which returns its input, is the value that went in.
\<close>

lemma fields_then_Inr_iff: "fields_then errs (Inr x) = Inr v \<longleftrightarrow> errs = [] \<and> v = x"
  by (cases errs) (auto simp: fields_then_def)








section \<open>Properties of AnalysisWeightings\<close>

lemma AnalysisWeightings_fields_empty_iff:
  "AnalysisWeightings_fields w = [] \<longleftrightarrow>
     (\<forall>x \<in> set [market_opportunity w, analysis_weightings.team w, analysis_weightings.traction w, product w, competitive_position w].
        0 \<le> x \<and> x \<le> 100)"
  by (simp add: AnalysisWeightings_fields_def number_range_empty_iff)

lemma AnalysisWeightings_fields_etype:
  "e \<in> set (AnalysisWeightings_fields w) \<Longrightarrow>
     etype e = ''greater_than_equal'' \<or> etype e = ''less_than_equal''"
  unfolding AnalysisWeightings_fields_def set_append Un_iff
  by (elim disjE) (rule number_range_etype, assumption)+

lemma contains_sum_to_100:
  "contains (msg (value_error l (''Weightings must sum to 100%, got '' @ x))) ''sum to 100''"
  unfolding contains_def sublist_def value_error_def
  by (rule exI[of _ "''Value error, Weightings must ''"], rule exI[of _ "''%, got '' @ x"]) simp


lemma AnalysisWeightings_validate_Inr:
  "AnalysisWeightings_validate repr w = Inr v \<Longrightarrow> v = w \<and> AnalysisWeightings_fields w = []"
  by (auto simp: AnalysisWeightings_validate_def fields_then_def model_validator_def
      validate_weightings_sum_def Let_def split: list.splits if_splits)


text \<open>
  C1, as the code has it. Constructing an AnalysisWeightings succeeds exactly when each of
  the five weights lies in [0, 100] and the float sum of the five is within 0.01 of 100.
  When every weight lies in [0, 100] and the sum is outside the tolerance, construction
  fails with the single entry of the model validator, whose message contains
  "sum to 100". When some weight lies outside [0, 100], construction fails with the range
  entries of the fields, whatever the sum is, and the sum is not examined.
\<close>

theorem AnalysisWeightings_construction:
  "((AnalysisWeightings repr w = Inr w) =
      ((\<forall>x \<in> set [market_opportunity w, analysis_weightings.team w, analysis_weightings.traction w, product w, competitive_position w].
          0 \<le> x \<and> x \<le> 100)
       \<and> \<bar>fsub (weightings_total w) 100\<bar> \<le> binary64 (1 / 100)))
   \<and> ((\<forall>x \<in> set [market_opportunity w, analysis_weightings.team w, analysis_weightings.traction w, product w, competitive_position w].
          0 \<le> x \<and> x \<le> 100)
       \<and> \<not> \<bar>fsub (weightings_total w) 100\<bar> \<le> binary64 (1 / 100) \<longrightarrow>
       (\<exists>e. AnalysisWeightings repr w = Inl (ValidationError ''AnalysisWeightings'' e [])
           \<and> contains (msg e) ''sum to 100''))
   \<and> (\<not> (\<forall>x \<in> set [market_opportunity w, analysis_weightings.team w, analysis_weightings.traction w, product w, competitive_position w].
          0 \<le> x \<and> x \<le> 100) \<longrightarrow>
       (\<exists>e es. AnalysisWeightings repr w = Inl (ValidationError ''AnalysisWeightings'' e es)
           \<and> (\<forall>x \<in> set (e # es).
                 etype x = ''greater_than_equal'' \<or> etype x = ''less_than_equal'')))"
proof -
  let ?R = "\<forall>x \<in> set [market_opportunity w, analysis_weightings.team w, analysis_weightings.traction w, product w, competitive_position w].
         0 \<le> x \<and> x \<le> 100"
  let ?T = "\<bar>fsub (weightings_total w) 100\<bar> \<le> binary64 (1 / 100)"
  have R: "AnalysisWeightings_fields w = [] \<longleftrightarrow> ?R"
    by (rule AnalysisWeightings_fields_empty_iff)
  have a: "(AnalysisWeightings repr w = Inr w) = (?R \<and> ?T)"
    unfolding R[symmetric]
    by (auto simp: AnalysisWeightings_def AnalysisWeightings_validate_def fields_then_def
        model_validator_def validate_weightings_sum_def Let_def split: list.splits)
  have b: "?R \<and> \<not> ?T \<longrightarrow>
   (\<exists>e. AnalysisWeightings repr w = Inl (ValidationError ''AnalysisWeightings'' e [])
        \<and> contains (msg e) ''sum to 100'')"
  proof (intro impI, elim conjE)
    assume r: ?R and t: "\<not> ?T"
    let ?m = "''Weightings must sum to 100%, got '' @ repr (weightings_total w) @ ''%''"
    have f: "AnalysisWeightings_fields w = []"
      using r R by blast
    have v: "validate_weightings_sum repr w = Inl ?m"
      unfolding validate_weightings_sum_def Let_def
      by (simp only: t [unfolded not_le] if_True)
    have "AnalysisWeightings repr w
          = Inl (ValidationError ''AnalysisWeightings'' (value_error [] ?m) [])"
      unfolding AnalysisWeightings_def AnalysisWeightings_validate_def fields_then_def
        model_validator_def f v
      by (simp only: list.case sum.case construct.simps)
    then show "\<exists>e. AnalysisWeightings repr w = Inl (ValidationError ''AnalysisWeightings'' e [])
        \<and> contains (msg e) ''sum to 100''"
      using contains_sum_to_100 [of "[]" "repr (weightings_total w) @ ''%''"] by blast
  qed
  have c: "\<not> ?R \<longrightarrow>
   (\<exists>e es. AnalysisWeightings repr w = Inl (ValidationError ''AnalysisWeightings'' e es)
        \<and> (\<forall>x \<in> set (e # es). etype x = ''greater_than_equal'' \<or> etype x = ''less_than_equal''))"
  proof
    assume "\<not> ?R"
    then obtain e es where es: "AnalysisWeightings_fields w = e # es"
      unfolding R[symmetric] by (cases "AnalysisWeightings_fields w") auto
    have "\<forall>x \<in> set (e # es). etype x = ''greater_than_equal'' \<or> etype x = ''less_than_equal''"
      using AnalysisWeightings_fields_etype[of _ w] unfolding es by blast
    moreover have "AnalysisWeightings repr w = Inl (ValidationError ''AnalysisWeightings'' e es)"
      by (simp add: AnalysisWeightings_def AnalysisWeightings_validate_def fields_then_def es)
    ultimately show "\<exists>e es. AnalysisWeightings repr w = Inl (ValidationError ''AnalysisWeightings'' e es)
        \<and> (\<forall>x \<in> set (e # es). etype x = ''greater_than_equal'' \<or> etype x = ''less_than_equal'')"
      by blast
  qed
  from a b c show ?thesis by blast
qed

text \<open>
  The theorem at three inputs: the defaults (accepted), five weights of 30 (in range, sum
  150) and the weights 150, 0, 0, 0, 0 (out of range, sum 150).
\<close>

theorem AnalysisWeightings_construction_witness:
  "AnalysisWeightings repr_opaque analysis_weightings_defaults = Inr analysis_weightings_defaults
   \<and> (\<exists>e. AnalysisWeightings repr_opaque
            \<lparr>market_opportunity = 30, analysis_weightings.team = 30, analysis_weightings.traction = 30, product = 30,
             competitive_position = 30\<rparr>
          = Inl (ValidationError ''AnalysisWeightings'' e [])
        \<and> contains (msg e) ''sum to 100'')
   \<and> (\<exists>e es. AnalysisWeightings repr_opaque
            \<lparr>market_opportunity = 150, analysis_weightings.team = 0, analysis_weightings.traction = 0, product = 0,
             competitive_position = 0\<rparr>
          = Inl (ValidationError ''AnalysisWeightings'' e es)
        \<and> (\<forall>x \<in> set (e # es).
              etype x = ''greater_than_equal'' \<or> etype x = ''less_than_equal''))"
proof -
  let ?w1 = "analysis_weightings_defaults"
  let ?w2 = "\<lparr>market_opportunity = 30, analysis_weightings.team = 30, analysis_weightings.traction = 30, product = 30,
             competitive_position = 30\<rparr>"
  let ?w3 = "\<lparr>market_opportunity = 150, analysis_weightings.team = 0, analysis_weightings.traction = 0, product = 0,
             competitive_position = 0\<rparr>"
  have h1: "(\<forall>x \<in> set [market_opportunity ?w1, analysis_weightings.team ?w1, analysis_weightings.traction ?w1, product ?w1,
                competitive_position ?w1]. 0 \<le> x \<and> x \<le> 100)
            \<and> \<bar>fsub (weightings_total ?w1) 100\<bar> \<le> binary64 (1 / 100)"
    by code_simp
  have h2: "(\<forall>x \<in> set [market_opportunity ?w2, analysis_weightings.team ?w2, analysis_weightings.traction ?w2, product ?w2,
                competitive_position ?w2]. 0 \<le> x \<and> x \<le> 100)
            \<and> \<not> \<bar>fsub (weightings_total ?w2) 100\<bar> \<le> binary64 (1 / 100)"
    by code_simp
  have h3: "\<not> (\<forall>x \<in> set [market_opportunity ?w3, analysis_weightings.team ?w3, analysis_weightings.traction ?w3, product ?w3,
                competitive_position ?w3]. 0 \<le> x \<and> x \<le> 100)"
    by simp
  note t1 = AnalysisWeightings_construction [of repr_opaque ?w1]
  note t2 = AnalysisWeightings_construction [of repr_opaque ?w2]
  note t3 = AnalysisWeightings_construction [of repr_opaque ?w3]
  have a1: "AnalysisWeightings repr_opaque ?w1 = Inr ?w1"
    by (rule iffD2 [OF t1 [THEN conjunct1] h1])
  note a2 = mp [OF t2 [THEN conjunct2, THEN conjunct1] h2]
  note a3 = mp [OF t3 [THEN conjunct2, THEN conjunct2] h3]
  show ?thesis
    by (rule conjI [OF a1 conjI [OF a2 a3]])
qed

text \<open>
  C1 as stated fails: the weights 150, -50, 0, 0, 0 sum to exactly 100, in exact and in
  float arithmetic, and construction fails with the range entries of the first two fields.
\<close>

theorem AnalysisWeightings_sum_100_rejected:
  "\<bar>(150 + (- 50) + 0 + 0 + 0 :: rat) - 100\<bar> \<le> 1 / 100
   \<and> weightings_total \<lparr>market_opportunity = 150, analysis_weightings.team = - 50, analysis_weightings.traction = 0, product = 0,
        competitive_position = 0\<rparr> = 100
   \<and> AnalysisWeightings repr_opaque
        \<lparr>market_opportunity = 150, analysis_weightings.team = - 50, analysis_weightings.traction = 0, product = 0,
         competitive_position = 0\<rparr>
      = Inl (ValidationError ''AnalysisWeightings''
               (le_error ''market_opportunity'' 100) [ge_error ''team'' 0])"
  by code_simp

text \<open>
  C10. Every AnalysisWeightings that was constructed has each of its five weights in
  [0, 100]; the weights 150, -50, 0, 0, 0, which sum to 100, are not accepted.
\<close>

theorem AnalysisWeightings_weights_bounded:
  "(AnalysisWeightings repr w = Inr v \<longrightarrow>
      (\<forall>x \<in> set [market_opportunity v, analysis_weightings.team v, analysis_weightings.traction v, product v, competitive_position v].
          0 \<le> x \<and> x \<le> 100))
   \<and> (\<forall>v'. AnalysisWeightings repr
              \<lparr>market_opportunity = 150, analysis_weightings.team = - 50, analysis_weightings.traction = 0, product = 0,
               competitive_position = 0\<rparr> \<noteq> Inr v')"
proof (intro conjI impI allI)
  assume "AnalysisWeightings repr w = Inr v"
  then have "AnalysisWeightings_validate repr w = Inr v"
    by (simp only: AnalysisWeightings_def construct_Inr_iff)
  then have "v = w" and "AnalysisWeightings_fields w = []"
    using AnalysisWeightings_validate_Inr [of repr w v] by simp_all
  then show "\<forall>x \<in> set [market_opportunity v, analysis_weightings.team v, analysis_weightings.traction v, product v,
      competitive_position v]. 0 \<le> x \<and> x \<le> 100"
    by (simp only: AnalysisWeightings_fields_empty_iff)
next
  fix v'
  let ?w = "\<lparr>market_opportunity = 150, analysis_weightings.team = - 50, analysis_weightings.traction = 0, product = 0,
               competitive_position = 0\<rparr>"
  show "AnalysisWeightings repr ?w \<noteq> Inr v'"
  proof
    assume "AnalysisWeightings repr ?w = Inr v'"
    then have "AnalysisWeightings_validate repr ?w = Inr v'"
      by (simp only: AnalysisWeightings_def construct_Inr_iff)
    then have "AnalysisWeightings_fields ?w = []"
      using AnalysisWeightings_validate_Inr [of repr ?w v'] by simp
    then show False
      by (simp add: AnalysisWeightings_fields_empty_iff)
  qed
qed

theorem AnalysisWeightings_weights_bounded_witness:
  "AnalysisWeightings repr_opaque analysis_weightings_defaults = Inr analysis_weightings_defaults
   \<and> list_all (\<lambda>x. 0 \<le> x \<and> x \<le> 100)
        [market_opportunity analysis_weightings_defaults,
         analysis_weightings.team analysis_weightings_defaults, analysis_weightings.traction analysis_weightings_defaults,
         product analysis_weightings_defaults,
         competitive_position analysis_weightings_defaults]"
proof -
  have h: "AnalysisWeightings repr_opaque analysis_weightings_defaults
           = Inr analysis_weightings_defaults"
    by code_simp
  note b = mp [OF AnalysisWeightings_weights_bounded
          [of repr_opaque analysis_weightings_defaults analysis_weightings_defaults,
           THEN conjunct1] h]
  show ?thesis
    unfolding list_all_iff by (rule conjI [OF h b])
qed

section \<open>Properties of RevenueProjection\<close>








section \<open>Properties of MetricDistribution\<close>






section \<open>Properties of normalize_weightings\<close>




text \<open>
  In exact arithmetic the values rescaled by their total sum to 100. The values that
  \<^verbatim>\<open>normalize_weightings\<close> returns are these with the quotient rounded, the product
  rounded, and the total itself a float sum.
\<close>

lemma rescaled_sum:
  "sum_list (map (\<lambda>(k, v). v / t * 100) ws) = sum_list (map snd ws) / t * (100 :: rat)"
  by (induction ws) (auto simp: add_divide_distrib distrib_right)

lemma exact_rescaling_sums_to_100:
  assumes "sum_list (map snd ws) \<noteq> (0 :: rat)"
  shows "sum_list (map (\<lambda>(k, v). v / sum_list (map snd ws) * 100) ws) = 100"
proof -
  have "sum_list (map (\<lambda>(k, v). v / sum_list (map snd ws) * 100) ws)
        = sum_list (map snd ws) / sum_list (map snd ws) * 100"
    by (rule rescaled_sum)
  also have "\<dots> = 100"
    using assms by simp
  finally show ?thesis .
qed







section \<open>Properties of get_validation_errors\<close>







section \<open>Construction returns the values of the input\<close>





























section \<open>Properties of CompanyProfile and of the entry points\<close>

lemma CompanyProfile_example_year:
  "(\<exists>v. CompanyProfile import_year (example_company_profile\<lparr>founded_year := y\<rparr>) = Inr v)
     = (1900 \<le> y \<and> y \<le> import_year)"
  by (simp add: CompanyProfile_def construct_Inr_iff CompanyProfile_validate_def
      nested_optional_def fields_then_Inr_iff example_company_profile_def
      str_length_empty_iff int_range_empty_iff optional_def str_length_def)

text \<open>
  C8, on the code. On the valid profile of the test suite, with any founding year, a
  CompanyProfile is accepted exactly when the year is at least 1900 and at most the
  calendar year in which the module was imported: the year of the call does not enter.
  With the module imported in 2025, the founding year 2026 is rejected, also by a call
  made in 2026, while a process that imported the module in 2026 accepts the same input.
\<close>

theorem CompanyProfile_founded_year_bound_fixed_at_import:
  "((\<exists>v. CompanyProfile import_year (example_company_profile\<lparr>founded_year := y\<rparr>) = Inr v)
      = (1900 \<le> y \<and> y \<le> import_year))
   \<and> CompanyProfile 2025 (example_company_profile\<lparr>founded_year := 2026\<rparr>)
       = Inl (ValidationError ''CompanyProfile'' (le_error ''founded_year'' 2025) [])
   \<and> CompanyProfile 2026 (example_company_profile\<lparr>founded_year := 2026\<rparr>)
       = Inr (example_company_profile\<lparr>founded_year := 2026\<rparr>)"
proof -
  have a: "CompanyProfile 2025 (example_company_profile\<lparr>founded_year := 2026\<rparr>)
       = Inl (ValidationError ''CompanyProfile'' (le_error ''founded_year'' 2025) [])"
    by code_simp
  have b: "CompanyProfile 2026 (example_company_profile\<lparr>founded_year := 2026\<rparr>)
       = Inr (example_company_profile\<lparr>founded_year := 2026\<rparr>)"
    by code_simp
  show ?thesis
    by (rule conjI [OF CompanyProfile_example_year conjI [OF a b]])
qed










end
